theory Spec2Isabelle
  imports Main "HOL-Library.Word"
begin

section \<open>JavaScript strings\<close>

text \<open>
  A JavaScript string is a sequence of 16-bit code units. The regular expressions of
  \<^verbatim>\<open>index.tsx\<close> carry no \<^verbatim>\<open>u\<close> flag, so every string operation used there
  (\<^verbatim>\<open>split\<close>, \<^verbatim>\<open>indexOf\<close>, \<^verbatim>\<open>substring\<close>, \<^verbatim>\<open>slice\<close>, \<^verbatim>\<open>startsWith\<close>,
  \<^verbatim>\<open>endsWith\<close>, \<^verbatim>\<open>trim\<close>) works on code units.
\<close>

type_synonym code_unit = "16 word"
type_synonym jsstring = "code_unit list"

definition js :: "string \<Rightarrow> jsstring" where
  \<comment> \<open>an ASCII literal of the source, as code units\<close>
  "js s = map (\<lambda>c. of_nat (of_char c)) s"

definition is_line_terminator :: "code_unit \<Rightarrow> bool" where
  \<comment> \<open>ECMAScript LineTerminator: LF, CR, LS, PS; the characters \<^verbatim>\<open>.\<close> does not match\<close>
  "is_line_terminator c = (c = 0xA \<or> c = 0xD \<or> c = 0x2028 \<or> c = 0x2029)"

definition is_white_space :: "code_unit \<Rightarrow> bool" where
  \<comment> \<open>what \<^verbatim>\<open>String.prototype.trim\<close> strips: WhiteSpace and LineTerminator\<close>
  "is_white_space c =
     (c = 0x9 \<or> c = 0xB \<or> c = 0xC \<or> c = 0x20 \<or> c = 0xA0 \<or> c = 0x1680
      \<or> (0x2000 \<le> c \<and> c \<le> 0x200A) \<or> c = 0x202F \<or> c = 0x205F \<or> c = 0x3000
      \<or> c = 0xFEFF \<or> is_line_terminator c)"

definition trim :: "jsstring \<Rightarrow> jsstring" where
  "trim s = rev (dropWhile is_white_space (rev (dropWhile is_white_space s)))"

definition startsWith :: "jsstring \<Rightarrow> jsstring \<Rightarrow> bool" where
  "startsWith s p = (take (length p) s = p)"

definition endsWith :: "jsstring \<Rightarrow> jsstring \<Rightarrow> bool" where
  "endsWith s p = (length p \<le> length s \<and> drop (length s - length p) s = p)"

definition slice_str :: "jsstring \<Rightarrow> int \<Rightarrow> int \<Rightarrow> jsstring" where
  \<comment> \<open>\<^verbatim>\<open>s.slice(start, end)\<close>: a negative index counts from the end, both are clamped\<close>
  "slice_str s start end =
     (let len = int (length s);
          from = (if start < 0 then max (len + start) 0 else min start len);
          to = (if end < 0 then max (len + end) 0 else min end len)
      in take (nat (to - from)) (drop (nat from) s))"

fun indexOf :: "jsstring \<Rightarrow> jsstring \<Rightarrow> nat option" where
  \<comment> \<open>\<^verbatim>\<open>s.indexOf(p)\<close>; the source's \<^verbatim>\<open>-1\<close> is \<open>None\<close>\<close>
  "indexOf [] p = (if p = [] then Some 0 else None)"
| "indexOf (x # xs) p =
     (if startsWith (x # xs) p then Some 0 else map_option Suc (indexOf xs p))"

definition substring :: "jsstring \<Rightarrow> nat \<Rightarrow> nat \<Rightarrow> jsstring" where
  \<comment> \<open>\<^verbatim>\<open>s.substring(a, b)\<close> for \<open>a \<le> b\<close>, the only way the source calls it\<close>
  "substring s a b = take (b - a) (drop a s)"

definition substring_from :: "jsstring \<Rightarrow> nat \<Rightarrow> jsstring" where
  \<comment> \<open>\<^verbatim>\<open>s.substring(a)\<close>\<close>
  "substring_from s a = drop a s"


definition backtick :: code_unit where "backtick = 0x60"
definition asterisk :: code_unit where "asterisk = 0x2A"
definition newline :: code_unit where "newline = 0xA"

definition fence :: jsstring where "fence = [backtick, backtick, backtick]"
definition stars :: jsstring where "stars = [asterisk, asterisk]"

section \<open>The markdown renderer\<close>

subsection \<open>\<^verbatim>\<open>content.split(/```/g)\<close>\<close>

text \<open>
  \<^verbatim>\<open>RegExp.prototype[@@split]\<close> walks the string from the left with two indices: \<open>p\<close>, the
  start of the piece being collected, and \<open>q\<close>, the position where a match is tried. A
  match at \<open>q\<close> closes the piece \<open>S[p..q)\<close> and moves both indices behind the match; no
  match moves \<open>q\<close> on by one. At the end the rest \<open>S[p..size)\<close> is the last piece.
  Here \<open>acc\<close> holds \<open>S[p..q)\<close> reversed and the list argument is \<open>S[q..size)\<close>.
\<close>

fun split_fence_from :: "jsstring \<Rightarrow> jsstring \<Rightarrow> jsstring list" where
  "split_fence_from acc (a # b # c # rest) =
     (if a = backtick \<and> b = backtick \<and> c = backtick
      then rev acc # split_fence_from [] rest
      else split_fence_from (a # acc) (b # c # rest))"
| "split_fence_from acc rest = [rev acc @ rest]"

definition split_fence :: "jsstring \<Rightarrow> jsstring list" where
  "split_fence content = split_fence_from [] content"

subsection \<open>\<^verbatim>\<open>part.split(/(\*\*.*?\*\*)/g)\<close>\<close>

text \<open>
  \<open>close_bold s\<close> runs the lazy \<^verbatim>\<open>.*?\*\*\<close> on \<open>s\<close>: the closing asterisks are tried
  first, and only when they are not there does \<^verbatim>\<open>.\<close> take one code unit, which must not
  be a line terminator. The result is the number of code units \<^verbatim>\<open>.*?\<close> has taken.
\<close>

fun close_bold :: "jsstring \<Rightarrow> nat option" where
  "close_bold (a # b # rest) =
     (if a = asterisk \<and> b = asterisk then Some 0
      else if is_line_terminator a then None
      else map_option Suc (close_bold (b # rest)))"
| "close_bold rest = None"

definition match_bold :: "jsstring \<Rightarrow> nat option" where
  \<comment> \<open>the length of the match of \<^verbatim>\<open>\*\*.*?\*\*\<close> at the start of \<open>s\<close>, if there is one\<close>
  "match_bold s =
     (case s of
        a # b # rest \<Rightarrow>
          (if a = asterisk \<and> b = asterisk then map_option (\<lambda>k. k + 4) (close_bold rest)
           else None)
      | _ \<Rightarrow> None)"

text \<open>
  The pattern has one capture group around all of it, so the split puts every match
  between the pieces it separates: piece, match, piece, match, ..., piece.
\<close>

function split_bold_from :: "jsstring \<Rightarrow> jsstring \<Rightarrow> jsstring list" where
  "split_bold_from acc [] = [rev acc]"
| "split_bold_from acc (x # xs) =
     (case match_bold (x # xs) of
        Some n \<Rightarrow> rev acc # take n (x # xs) # split_bold_from [] (drop n (x # xs))
      | None \<Rightarrow> split_bold_from (x # acc) xs)"
  by pat_completeness auto
termination
  by (relation "measure (\<lambda>(acc, s). length s)")
     (auto simp: match_bold_def split: list.splits if_splits)

definition split_bold :: "jsstring \<Rightarrow> jsstring list" where
  "split_bold part = split_bold_from [] part"

subsection \<open>Elements\<close>

datatype inline =
    Span jsstring      \<comment> \<open>\<^verbatim>\<open><span>{subPart}</span>\<close>\<close>
  | Strong jsstring    \<comment> \<open>\<^verbatim>\<open><strong>{subPart.slice(2, -2)}</strong>\<close>\<close>

datatype element =
    CodeBlock jsstring jsstring    \<comment> \<open>\<^verbatim>\<open><CodeBlock language={language} code={code.trim()} />\<close>\<close>
  | TextBlock "inline list"        \<comment> \<open>the \<^verbatim>\<open>div\<close> of a text block and its children\<close>

definition render_span :: "jsstring \<Rightarrow> inline" where
  "render_span subPart =
     (if startsWith subPart stars \<and> endsWith subPart stars
      then Strong (slice_str subPart 2 (- 2))
      else Span subPart)"

definition code_segment :: "jsstring \<Rightarrow> element" where
  "code_segment part =
     (case indexOf part [newline] of
        None \<Rightarrow> CodeBlock (js ''text'') (trim part)
      | Some firstLineIndex \<Rightarrow>
          CodeBlock (trim (substring part 0 firstLineIndex))
                    (trim (substring_from part (firstLineIndex + 1))))"

definition prose_segment :: "jsstring \<Rightarrow> element option" where
  \<comment> \<open>\<open>None\<close> is the source's \<^verbatim>\<open>return null\<close>: nothing is rendered\<close>
  "prose_segment part =
     (if trim part = [] then None
      else Some (TextBlock (map render_span (split_bold part))))"

definition render_part :: "nat \<times> jsstring \<Rightarrow> element option" where
  "render_part ip =
     (case ip of (index, part) \<Rightarrow>
        if index mod 2 = 1 then Some (code_segment part) else prose_segment part)"

text \<open>
  The component reads its \<^verbatim>\<open>content\<close> property and nothing else: no hook, no reference,
  no variable outside its body. Its model is a function of the string alone.
\<close>

definition SimpleMarkdownRenderer :: "jsstring \<Rightarrow> element option list option" where
  \<comment> \<open>\<open>None\<close>: \<^verbatim>\<open>if (!content) return null\<close>; otherwise the children of the outer \<^verbatim>\<open>div\<close>\<close>
  "SimpleMarkdownRenderer content =
     (if content = [] then None
      else Some (map render_part (enumerate 0 (split_fence content))))"

section \<open>Credentials\<close>

text \<open>
  \<^verbatim>\<open>process.env\<close> as the browser code sees it: each variable is a string or
  \<^verbatim>\<open>undefined\<close>. The build configuration substitutes the values of the build
  environment for \<^verbatim>\<open>process.env.API_KEY\<close> and \<^verbatim>\<open>process.env.GEMINI_API_KEY\<close>.
\<close>

record env =
  API_KEY :: "jsstring option"
  GEMINI_API_KEY :: "jsstring option"

datatype js_error = Error (message: "jsstring option")

datatype GoogleGenAI = GoogleGenAI jsstring    \<comment> \<open>\<^verbatim>\<open>new GoogleGenAI({ apiKey })\<close>\<close>

definition truthy :: "jsstring option \<Rightarrow> bool" where
  \<comment> \<open>\<^verbatim>\<open>undefined\<close> and the empty string are falsy\<close>
  "truthy v = (case v of None \<Rightarrow> False | Some s \<Rightarrow> s \<noteq> [])"

definition or_else :: "jsstring option \<Rightarrow> jsstring option \<Rightarrow> jsstring option" where
  \<comment> \<open>\<^verbatim>\<open>a || b\<close>\<close>
  "or_else a b = (if truthy a then a else b)"

definition configuration_error :: js_error where
  "configuration_error = Error (Some (js
     ''Configuration Error: The API_KEY or GEMINI_API_KEY environment variable is missing. Please add it in your Vercel/Netlify settings.''))"

definition getGenAI :: "env \<Rightarrow> js_error + GoogleGenAI" where
  "getGenAI e =
     (let apiKey = or_else (API_KEY e) (GEMINI_API_KEY e)
      in case apiKey of
           None \<Rightarrow> Inl configuration_error
         | Some k \<Rightarrow> if k = [] then Inl configuration_error else Inr (GoogleGenAI k))"

definition message_or_unknown :: "js_error \<Rightarrow> jsstring" where
  \<comment> \<open>\<^verbatim>\<open>error.message || "Unknown error"\<close>\<close>
  "message_or_unknown e =
     (case message e of
        None \<Rightarrow> js ''Unknown error''
      | Some m \<Rightarrow> if m = [] then js ''Unknown error'' else m)"

section \<open>The model service\<close>

text \<open>
  What a streaming call does is not in this program's hands; it is a parameter of the
  model. The call is rejected, or it gives a stream that yields chunks (whose
  \<^verbatim>\<open>text\<close> is a string or \<^verbatim>\<open>undefined\<close>) and then ends or throws. A stream that
  never ends is left out: the loops below would not return on it.
\<close>

type_synonym chunk = "jsstring option"

datatype response =
    Rejected js_error
  | Stream "chunk list" "js_error option"

section \<open>The code generation panel\<close>

record gen_state =
  description :: jsstring
  language :: jsstring
  loading :: bool
  "output" :: "jsstring option"

datatype gen_request = GenerateContentStream GoogleGenAI jsstring jsstring

text \<open>
  The effects of \<^verbatim>\<open>generateCode\<close>, in program order. Its writes to the console are
  left out, here and in the chat panel.
\<close>

datatype gen_event =
    SetLoading bool
  | SetOutput jsstring
  | GenRequest gen_request

fun apply_gen :: "gen_state \<Rightarrow> gen_event \<Rightarrow> gen_state" where
  "apply_gen st (SetLoading b) = st\<lparr>loading := b\<rparr>"
| "apply_gen st (SetOutput s) = st\<lparr>output := Some s\<rparr>"
| "apply_gen st (GenRequest r) = st"

definition run_gen :: "gen_state \<Rightarrow> gen_event list \<Rightarrow> gen_state" where
  "run_gen st evs = foldl apply_gen st evs"

definition gen_requests :: "gen_event list \<Rightarrow> gen_request list" where
  "gen_requests evs = [r. GenRequest r \<leftarrow> evs]"

definition prompt :: "jsstring \<Rightarrow> jsstring \<Rightarrow> jsstring" where
  "prompt lang descr =
     js ''Act as an expert coding tutor for beginners.\<newline>      Task: Write a ''
     @ lang @ js '' program that '' @ descr
     @ js ''.\<newline>      \<newline>      STRICT REQUIREMENTS:\<newline>      1. SIMPLICITY IS PRIORITY: Use the absolute simplest logic and standard libraries. Avoid advanced concepts (like list comprehensions, heavy modularization, or external packages) unless strictly necessary.\<newline>      2. ZERO ERRORS: The code MUST be 100% correct, compilable, and runnable. Double-check syntax.\<newline>      3. LINE-BY-LINE COMMENTS: Add clear, simple comments to almost every line explaining what it does.\<newline>      4. EXPLANATION: After the code, explain the logic in plain English as if teaching a 10-year-old.\<newline>      5. FORMAT: Provide the code inside a markdown code block.''"

definition gen_diagnostic :: "jsstring \<Rightarrow> jsstring" where
  "gen_diagnostic errorMsg =
     js ''**CONFIGURATION ERROR**\<newline>\<newline>'' @ errorMsg
     @ js ''\<newline>\<newline>To fix this on Vercel:\<newline>1. Go to **Settings** > **Environment Variables**.\<newline>2. Add `API_KEY` or `GEMINI_API_KEY` with your Google Gemini API Key.\<newline>3. Redeploy your project.''"

definition gen_catch :: "js_error \<Rightarrow> gen_event list" where
  "gen_catch e = [SetOutput (gen_diagnostic (message_or_unknown e))]"

fun stream_output :: "jsstring \<Rightarrow> chunk list \<Rightarrow> gen_event list" where
  \<comment> \<open>the \<^verbatim>\<open>for await\<close> loop; the first argument is \<^verbatim>\<open>fullText\<close>\<close>
  "stream_output fullText [] = []"
| "stream_output fullText (c # cs) =
     (case c of
        None \<Rightarrow> stream_output fullText cs
      | Some t \<Rightarrow>
          if t = [] then stream_output fullText cs
          else SetOutput (fullText @ t) # stream_output (fullText @ t) cs)"

definition generateCode :: "env \<Rightarrow> response \<Rightarrow> gen_state \<Rightarrow> gen_event list" where
  "generateCode e resp st =
     (if trim (description st) = [] then []
      else
        [SetLoading True, SetOutput []]
        @ (case getGenAI e of
             Inl err \<Rightarrow> gen_catch err
           | Inr ai \<Rightarrow>
               GenRequest (GenerateContentStream ai (js ''gemini-2.5-flash'')
                             (prompt (language st) (description st)))
               # (case resp of
                    Rejected err \<Rightarrow> gen_catch err
                  | Stream cs ending \<Rightarrow>
                      stream_output [] cs
                      @ (case ending of None \<Rightarrow> [] | Some err \<Rightarrow> gen_catch err)))
        @ [SetLoading False])"

text \<open>
  The only caller of \<^verbatim>\<open>generateCode\<close> is the button
  \<^verbatim>\<open><button onClick={generateCode} disabled={loading || !description.trim()}>\<close>;
  a disabled button dispatches no click.
\<close>

definition generate_disabled :: "gen_state \<Rightarrow> bool" where
  "generate_disabled st = (loading st \<or> trim (description st) = [])"

definition generate_click :: "env \<Rightarrow> response \<Rightarrow> gen_state \<Rightarrow> gen_event list" where
  "generate_click e resp st = (if generate_disabled st then [] else generateCode e resp st)"

text \<open>
  The panel over time. \<^verbatim>\<open>generateCode\<close> runs in the click handler up to its first
  \<^verbatim>\<open>await\<close>, which is the request; what follows runs later, one effect at a time, among
  the other events of the page. Without a client there is no \<^verbatim>\<open>await\<close>: the whole
  invocation runs in the handler. \<open>running\<close> holds, for every invocation that has
  issued its request, the effects it has still to make. The user can click the button,
  edit the description and select a language at any time; React renders the state that
  a handler has set, the button's \<^verbatim>\<open>disabled\<close> attribute with it, before the next
  event is dispatched.
\<close>

fun sync_part :: "gen_event list \<Rightarrow> gen_event list" where
  "sync_part [] = []"
| "sync_part (GenRequest r # evs) = [GenRequest r]"
| "sync_part (ev # evs) = ev # sync_part evs"

fun async_part :: "gen_event list \<Rightarrow> gen_event list" where
  "async_part [] = []"
| "async_part (GenRequest r # evs) = evs"
| "async_part (ev # evs) = async_part evs"

record panel =
  gen :: gen_state
  running :: "gen_event list list"

datatype action =
    Click response         \<comment> \<open>a click on Generate; the service will answer with this response\<close>
  | SetDescription jsstring
  | SetLanguage jsstring
  | Resume nat             \<comment> \<open>the invocation with this number makes its next effect\<close>

fun panel_step :: "env \<Rightarrow> panel \<Rightarrow> action \<Rightarrow> panel" where
  "panel_step e p (Click resp) =
     (let evs = generate_click e resp (gen p)
      in if evs = [] then p
         else p\<lparr>gen := run_gen (gen p) (sync_part evs),
                running := running p @ [async_part evs]\<rparr>)"
| "panel_step e p (SetDescription d) = p\<lparr>gen := (gen p)\<lparr>description := d\<rparr>\<rparr>"
| "panel_step e p (SetLanguage l) = p\<lparr>gen := (gen p)\<lparr>language := l\<rparr>\<rparr>"
| "panel_step e p (Resume i) =
     (if i < length (running p)
      then (case running p ! i of
              [] \<Rightarrow> p
            | ev # rest \<Rightarrow> p\<lparr>gen := apply_gen (gen p) ev, running := (running p)[i := rest]\<rparr>)
      else p)"

definition initial_panel :: panel where
  \<comment> \<open>the \<^verbatim>\<open>useState\<close> defaults; \<^verbatim>\<open>LANGUAGES[0]\<close> is \<^verbatim>\<open>"C"\<close>\<close>
  "initial_panel =
     \<lparr>gen = \<lparr>description = [], language = js ''C'', loading = False, output = None\<rparr>,
      running = []\<rparr>"

definition panel_after :: "env \<Rightarrow> action list \<Rightarrow> panel" where
  "panel_after e acts = foldl (panel_step e) initial_panel acts"

definition busy :: "gen_event list list \<Rightarrow> nat" where
  \<comment> \<open>how many invocations have effects still to make\<close>
  "busy rs = length (filter (\<lambda>r. r \<noteq> []) rs)"

definition in_flight :: "panel \<Rightarrow> bool" where
  "in_flight p = (0 < busy (running p))"

fun is_output :: "gen_event \<Rightarrow> bool" where
  "is_output (SetOutput s) = True"
| "is_output ev = False"

definition settles :: "gen_event list \<Rightarrow> bool" where
  \<comment> \<open>writes to the buffer, then the \<^verbatim>\<open>finally\<close> block\<close>
  "settles r = (r \<noteq> [] \<and> last r = SetLoading False \<and> list_all is_output (butlast r))"

definition panel_ok :: "panel \<Rightarrow> bool" where
  "panel_ok p =
     (busy (running p) \<le> 1
      \<and> (loading (gen p) \<longleftrightarrow> busy (running p) = 1)
      \<and> list_all (\<lambda>r. r = [] \<or> settles r) (running p))"

section \<open>The chat panel\<close>

record message =
  role :: jsstring
  "text" :: jsstring

definition CHAT_SYSTEM_PROMPT :: jsstring where
  "CHAT_SYSTEM_PROMPT = js
     ''You are CodeCraft AI, an ultra-patient coding tutor for absolute beginners.\<newline>\<newline>STRICT RULES FOR EVERY RESPONSE:\<newline>1. EXTREME SIMPLICITY: Explain everything as if the user is 10 years old. Use short sentences and no technical jargon.\<newline>2. BEGINNER CODE ONLY: When providing code, use the most basic, fundamental logic possible. Avoid shortcuts, advanced syntax, or 'clever' one-liners.\<newline>3. ALWAYS RUNNABLE: Provide complete, copy-pasteable code with all necessary imports and main functions.\<newline>4. NO LECTURES: Keep text explanations short and direct.\<newline>5. BE SUPPORTIVE: Encourage the user.''"

datatype chat_session = ChatSession GoogleGenAI jsstring jsstring
  \<comment> \<open>\<^verbatim>\<open>ai.chats.create({ model, config: { systemInstruction } })\<close>\<close>

record chat_state =
  messages :: "message list"
  input :: jsstring
  isTyping :: bool
  chatSession :: "chat_session option"    \<comment> \<open>\<^verbatim>\<open>chatSessionRef.current\<close>\<close>

text \<open>
  The effects of \<^verbatim>\<open>sendMessage\<close>, in the order in which they take hold of the state
  (which for the queued updaters of \<^verbatim>\<open>setMessages\<close> is the order of the calls). The two
  updaters passed to
  \<^verbatim>\<open>setMessages\<close> are \<open>Append\<close> (\<^verbatim>\<open>prev => [...prev, m]\<close>) and \<open>OverwriteLast\<close>
  (\<^verbatim>\<open>newArr[newArr.length - 1].text = fullResponse\<close>).
\<close>

datatype chat_event =
    Append message
  | OverwriteLast jsstring
  | SetInput jsstring
  | SetIsTyping bool
  | SetSession chat_session
  | SendMessageStream chat_session jsstring

datatype fault = TypeError

fun apply_chat :: "chat_state \<Rightarrow> chat_event \<Rightarrow> fault + chat_state" where
  "apply_chat st (Append m) = Inr (st\<lparr>messages := messages st @ [m]\<rparr>)"
| "apply_chat st (OverwriteLast t) =
     (if messages st = [] then Inl TypeError
      else Inr (st\<lparr>messages := butlast (messages st) @ [(last (messages st))\<lparr>text := t\<rparr>]\<rparr>))"
| "apply_chat st (SetInput s) = Inr (st\<lparr>input := s\<rparr>)"
| "apply_chat st (SetIsTyping b) = Inr (st\<lparr>isTyping := b\<rparr>)"
| "apply_chat st (SetSession s) = Inr (st\<lparr>chatSession := Some s\<rparr>)"
| "apply_chat st (SendMessageStream s m) = Inr st"

fun run_chat :: "chat_state \<Rightarrow> chat_event list \<Rightarrow> fault + chat_state" where
  "run_chat st [] = Inr st"
| "run_chat st (ev # evs) =
     (case apply_chat st ev of Inl f \<Rightarrow> Inl f | Inr st' \<Rightarrow> run_chat st' evs)"

definition chat_requests :: "chat_event list \<Rightarrow> (chat_session \<times> jsstring) list" where
  "chat_requests evs = [(s, m). SendMessageStream s m \<leftarrow> evs]"

definition initChat :: "env \<Rightarrow> chat_session option" where
  \<comment> \<open>the new value of the reference when the source returns \<^verbatim>\<open>true\<close>, \<open>None\<close> when
      it returns \<^verbatim>\<open>false\<close> and leaves the reference as it was; \<^verbatim>\<open>chats.create\<close> only
      builds the session object, the one thing that throws here is \<^verbatim>\<open>getGenAI\<close>\<close>
  "initChat e =
     (case getGenAI e of
        Inl err \<Rightarrow> None
      | Inr ai \<Rightarrow> Some (ChatSession ai (js ''gemini-2.5-flash'') CHAT_SYSTEM_PROMPT))"

definition mount :: "env \<Rightarrow> chat_state" where
  \<comment> \<open>the initial state and the effect \<^verbatim>\<open>useEffect(() => { initChat(); }, [])\<close>\<close>
  "mount e = \<lparr>messages = [], input = [], isTyping = False, chatSession = initChat e\<rparr>"

definition chat_diagnostic :: "jsstring \<Rightarrow> jsstring" where
  "chat_diagnostic errorMsg =
     js ''**CONFIGURATION ERROR**: '' @ errorMsg @ js ''. Please check Vercel settings.''"

definition chat_catch :: "js_error \<Rightarrow> chat_event list" where
  "chat_catch e =
     [Append \<lparr>role = js ''model'', text = chat_diagnostic (message_or_unknown e)\<rparr>]"

definition missing_key_error :: js_error where
  "missing_key_error =
     Error (Some (js ''Missing API_KEY or GEMINI_API_KEY environment variable.''))"

definition chunk_text :: "chunk \<Rightarrow> jsstring" where
  \<comment> \<open>\<^verbatim>\<open>chunk.text || ""\<close>\<close>
  "chunk_text c = (case c of None \<Rightarrow> [] | Some t \<Rightarrow> if t = [] then [] else t)"

definition prefix_text :: "chunk list \<Rightarrow> nat \<Rightarrow> jsstring" where
  \<comment> \<open>the texts of the first \<open>j\<close> chunks, concatenated\<close>
  "prefix_text cs j = concat (map chunk_text (take j cs))"

text \<open>
  The updater that the loop passes to \<^verbatim>\<open>setMessages\<close> does not hold the buffer. It
  closes over the variable \<^verbatim>\<open>fullResponse\<close> and reads it when React runs it: not before
  the loop gives up control at the wait for the next chunk, and possibly after further
  chunks have been appended. React runs the queued updaters in their order. The schedule
  \<open>rs\<close> says, chunk by chunk, whether React runs what is queued before the loop takes
  the next chunk; a schedule that ends early stands for a run after every further chunk.
  When the stream has ended or failed, React runs what is still queued.
\<close>

fun stream_writes :: "bool list \<Rightarrow> jsstring \<Rightarrow> nat \<Rightarrow> chunk list \<Rightarrow> jsstring list" where
  \<comment> \<open>the \<^verbatim>\<open>for await\<close> loop with \<^verbatim>\<open>fullResponse\<close> and the number of queued updaters;
      the result is what the updaters write, in the order in which they run\<close>
  "stream_writes rs fullResponse queued [] = replicate queued fullResponse"
| "stream_writes [] fullResponse queued (c # cs) =
     replicate (Suc queued) (fullResponse @ chunk_text c)
     @ stream_writes [] (fullResponse @ chunk_text c) 0 cs"
| "stream_writes (r # rs) fullResponse queued (c # cs) =
     (if r
      then replicate (Suc queued) (fullResponse @ chunk_text c)
           @ stream_writes rs (fullResponse @ chunk_text c) 0 cs
      else stream_writes rs (fullResponse @ chunk_text c) (Suc queued) cs)"

definition stream_messages :: "bool list \<Rightarrow> chunk list \<Rightarrow> chat_event list" where
  "stream_messages rs cs = map OverwriteLast (stream_writes rs [] 0 cs)"

definition send_stream ::
  "bool list \<Rightarrow> chat_session \<Rightarrow> jsstring \<Rightarrow> response \<Rightarrow> chat_event list" where
  \<comment> \<open>from \<^verbatim>\<open>sendMessageStream\<close> to the end of the \<^verbatim>\<open>try\<close> block or into \<^verbatim>\<open>catch\<close>\<close>
  "send_stream rs sess userMsg resp =
     SendMessageStream sess userMsg
     # (case resp of
          Rejected err \<Rightarrow> chat_catch err
        | Stream cs ending \<Rightarrow>
            Append \<lparr>role = js ''model'', text = []\<rparr>
            # stream_messages rs cs
            @ (case ending of None \<Rightarrow> [] | Some err \<Rightarrow> chat_catch err))"

definition sendMessage ::
  "env \<Rightarrow> bool list \<Rightarrow> response \<Rightarrow> chat_state \<Rightarrow> chat_event list" where
  "sendMessage e rs resp st =
     (if trim (input st) = [] then []
      else
        [Append \<lparr>role = js ''user'', text = input st\<rparr>, SetInput [], SetIsTyping True]
        @ (case chatSession st of
             Some sess \<Rightarrow> send_stream rs sess (input st) resp
           | None \<Rightarrow>
               (case initChat e of
                  None \<Rightarrow> chat_catch missing_key_error
                | Some sess \<Rightarrow> SetSession sess # send_stream rs sess (input st) resp))
        @ [SetIsTyping False])"



fun sets_session :: "chat_event \<Rightarrow> bool" where
  "sets_session (SetSession s) = True"
| "sets_session ev = False"

text \<open>
  \<^verbatim>\<open>sendMessage\<close> has two callers: the send button, disabled while the input is blank or
  \<^verbatim>\<open>isTyping\<close> is set, and the input field's \<^verbatim>\<open>onKeyDown\<close>, which calls it on Enter
  whatever the flags are. So \<^verbatim>\<open>sendMessage\<close> can run while an earlier exchange is waiting
  for its stream.

  The relation below covers the states the chat panel can be in: the state after
  mounting, any state with the input field edited, and any state with one more effect of
  an exchange applied, where the exchange may have started in another reachable state. It
  follows no order among the effects of overlapping exchanges, so it holds of every state
  that an interleaving of exchanges leads to.
\<close>

inductive reachable :: "env \<Rightarrow> chat_state \<Rightarrow> bool" for e :: env where
  mounted: "reachable e (mount e)"
| edited: "reachable e st \<Longrightarrow> reachable e (st\<lparr>input := s\<rparr>)"
| effect: "reachable e st \<Longrightarrow> reachable e st0 \<Longrightarrow> ev \<in> set (sendMessage e rs resp st0)
           \<Longrightarrow> apply_chat st ev = Inr st' \<Longrightarrow> reachable e st'"

section \<open>The specification's own notions\<close>

text \<open>
  These definitions follow the words of the specification, not the code; the theorems
  below compare the code with them. (\<open>bold_span\<close> is the exception: it describes the
  matches of the regular expression on which the source splits a prose chunk.)
\<close>

definition blank :: "jsstring \<Rightarrow> bool" where
  \<comment> \<open>"blank (empty or whitespace-only)"\<close>
  "blank s = list_all is_white_space s"

definition strip_stars :: "jsstring \<Rightarrow> jsstring" where
  \<comment> \<open>"with the surrounding asterisks stripped"\<close>
  "strip_stars s = take (length s - 4) (drop 2 s)"

definition delimited_span :: "jsstring \<Rightarrow> bool" where
  \<comment> \<open>"two-asterisk-delimited span": two asterisks, a middle that may be empty, two
      asterisks\<close>
  "delimited_span s =
     (4 \<le> length s \<and> take 2 s = stars \<and> drop (length s - 2) s = stars)"

definition bold_span :: "jsstring \<Rightarrow> bool" where
  \<comment> \<open>all of \<open>s\<close> matches the regular expression \<^verbatim>\<open>\*\*.*?\*\*\<close> of the source: it is
      delimited and its middle is free of line terminators\<close>
  "bold_span s =
     (delimited_span s \<and> list_all (\<lambda>c. \<not> is_line_terminator c) (strip_stars s))"

definition spec_render_span :: "jsstring \<Rightarrow> inline" where
  \<comment> \<open>"spans matching that pattern [two-asterisk-delimited span] render as emphasized
      text with the asterisks stripped; all other spans render as plain text"\<close>
  "spec_render_span s = (if delimited_span s then Strong (strip_stars s) else Span s)"

definition spec_prose_segment :: "jsstring \<Rightarrow> element option" where
  "spec_prose_segment part =
     (if blank part then None
      else Some (TextBlock (map spec_render_span (split_bold part))))"

definition spec_code_segment :: "jsstring \<Rightarrow> element" where
  \<comment> \<open>"the substring up to the first line break is treated as a language tag (trimmed;
      empty allowed); the remainder is the code body (trimmed)"\<close>
  "spec_code_segment part =
     CodeBlock (trim (takeWhile (\<lambda>c. c \<noteq> newline) part))
               (trim (drop 1 (dropWhile (\<lambda>c. c \<noteq> newline) part)))"




section \<open>Strings: auxiliary facts\<close>

lemma trim_Nil: "trim [] = []"
  by (simp add: trim_def)

lemma trim_empty_iff: "trim s = [] \<longleftrightarrow> blank s"
proof
  assume "trim s = []"
  then have "dropWhile is_white_space (rev (dropWhile is_white_space s)) = []"
    by (simp add: trim_def)
  then have all: "\<forall>x \<in> set (dropWhile is_white_space s). is_white_space x"
    by simp
  have "dropWhile is_white_space s = []"
  proof (rule ccontr)
    assume ne: "dropWhile is_white_space s \<noteq> []"
    then have "\<not> is_white_space (hd (dropWhile is_white_space s))"
      by (rule hd_dropWhile)
    moreover have "hd (dropWhile is_white_space s) \<in> set (dropWhile is_white_space s)"
      using ne by simp
    ultimately show False using all by blast
  qed
  then show "blank s"
    by (simp add: blank_def list_all_iff)
next
  assume "blank s"
  then have d: "dropWhile is_white_space s = []"
    by (simp add: blank_def list_all_iff)
  show "trim s = []" unfolding trim_def by (simp only: d) simp
qed

lemma not_blank_hi: "\<not> blank (js ''hi'')"
  by (simp add: blank_def js_def is_white_space_def is_line_terminator_def)

lemma trim_hi: "trim (js ''hi'') = js ''hi''"
  by (simp add: trim_def js_def is_white_space_def is_line_terminator_def)

lemma trim_sort: "trim (js ''sort'') = js ''sort''"
  by (simp add: trim_def js_def is_white_space_def is_line_terminator_def)



lemma indexOf_newline:
  "indexOf part [newline] =
     (if newline \<in> set part then Some (length (takeWhile (\<lambda>c. c \<noteq> newline) part)) else None)"
  by (induction part) (auto simp: startsWith_def)

lemmas render_eval = js_def fence_def stars_def backtick_def asterisk_def newline_def
  is_line_terminator_def is_white_space_def trim_def startsWith_def endsWith_def slice_str_def
  substring_def substring_from_def split_fence_def split_bold_def match_bold_def
  render_span_def code_segment_def prose_segment_def render_part_def SimpleMarkdownRenderer_def

section \<open>The renderer: fences\<close>









section \<open>The renderer: code chunks\<close>

text \<open>
  Claim C4, as the specification states it, reads the language tag and the body off the
  first line break of every code chunk. The source does so only when the chunk has a line
  break; a chunk without one keeps the defaults of \<^verbatim>\<open>let language = 'text'\<close> and
  \<^verbatim>\<open>let code = part\<close>. The input \<^verbatim>\<open>```py```\<close> shows the difference: the code block has
  the language \<^verbatim>\<open>text\<close> and the body \<^verbatim>\<open>py\<close>, where the claim gives the language \<^verbatim>\<open>py\<close>
  and an empty body.
\<close>

theorem code_segment_counterexample:
  "SimpleMarkdownRenderer (js ''```py```'')
     = Some [None, Some (CodeBlock (js ''text'') (js ''py'')), None]
   \<and> code_segment (js ''py'') = CodeBlock (js ''text'') (js ''py'')
   \<and> spec_code_segment (js ''py'') = CodeBlock (js ''py'') []
   \<and> code_segment (js ''py'') \<noteq> spec_code_segment (js ''py'')"
  by (simp add: render_eval spec_code_segment_def)

text \<open>
  Claim C4, amended. For every code chunk that contains a line break, the substring up
  to the first line break, trimmed, is the language tag (empty allowed) and the remainder
  after that line break, trimmed, is the code body. For a code chunk with no line break
  the language tag is \<^verbatim>\<open>text\<close> and the code body is the whole chunk, trimmed.
\<close>

theorem code_segment_by_line_break:
  "code_segment part =
     (if newline \<in> set part then spec_code_segment part
      else CodeBlock (js ''text'') (trim part))"
proof (cases "newline \<in> set part")
  case True
  let ?n = "length (takeWhile (\<lambda>c. c \<noteq> newline) part)"
  have "take ?n part = takeWhile (\<lambda>c. c \<noteq> newline) part"
    by (rule takeWhile_eq_take [symmetric])
  moreover have "drop (?n + 1) part = drop 1 (dropWhile (\<lambda>c. c \<noteq> newline) part)"
    by (simp add: dropWhile_eq_drop)
  ultimately show ?thesis
    using True
    by (simp add: code_segment_def spec_code_segment_def indexOf_newline
          substring_def substring_from_def)
next
  case False
  then show ?thesis by (simp add: code_segment_def indexOf_newline)
qed

theorem code_segment_by_line_break_witness:
  "newline \<in> set (js ''py\<newline>print(1)\<newline>'')
   \<and> code_segment (js ''py\<newline>print(1)\<newline>'') = CodeBlock (js ''py'') (js ''print(1)'')
   \<and> newline \<notin> set (js ''py'')
   \<and> code_segment (js ''py'') = CodeBlock (js ''text'') (js ''py'')"
  using code_segment_by_line_break [of "js ''py\<newline>print(1)\<newline>''"]
    code_segment_by_line_break [of "js ''py''"]
  by (simp add: js_def newline_def spec_code_segment_def trim_def is_white_space_def
        is_line_terminator_def)

text \<open>The example of the specification, \<^verbatim>\<open>render("x```py\nprint(1)\n```y")\<close>.\<close>

lemma render_example:
  "SimpleMarkdownRenderer (js ''x```py\<newline>print(1)\<newline>```y'')
     = Some [Some (TextBlock [Span (js ''x'')]),
             Some (CodeBlock (js ''py'') (js ''print(1)'')),
             Some (TextBlock [Span (js ''y'')])]"
  by (simp add: render_eval)

section \<open>The renderer: prose chunks\<close>

lemma close_bold_Some:
  "close_bold rest = Some k \<Longrightarrow>
     k + 2 \<le> length rest \<and> take 2 (drop k rest) = stars
     \<and> list_all (\<lambda>c. \<not> is_line_terminator c) (take k rest)"
proof (induction rest arbitrary: k rule: close_bold.induct)
  case (1 a b rest)
  show ?case
  proof (cases "a = asterisk \<and> b = asterisk")
    case True
    with "1.prems" show ?thesis by (simp add: stars_def)
  next
    case False
    with "1.prems" obtain j where lt: "\<not> is_line_terminator a"
      and j: "close_bold (b # rest) = Some j" and k: "k = Suc j"
      by (auto split: if_splits)
    from "1.IH" [OF _ lt j] False
    have "j + 2 \<le> length (b # rest) \<and> take 2 (drop j (b # rest)) = stars
     \<and> list_all (\<lambda>c. \<not> is_line_terminator c) (take j (b # rest))"
      by blast
    with k lt show ?thesis by simp
  qed
qed simp_all

text \<open>Every match of the pattern is a two-asterisk-delimited span.\<close>

lemma match_bold_Some:
  assumes "match_bold s = Some n"
  shows "n \<le> length s \<and> 0 < n \<and> bold_span (take n s)"
proof -
  from assms obtain a b rest k where s: "s = a # b # rest" and ab: "a = asterisk" "b = asterisk"
    and k: "close_bold rest = Some k" and n: "n = k + 4"
    by (auto simp: match_bold_def split: list.splits if_splits)
  from close_bold_Some [OF k]
  have len: "k + 2 \<le> length rest" and cl: "take 2 (drop k rest) = stars"
    and nl: "list_all (\<lambda>c. \<not> is_line_terminator c) (take k rest)"
    by blast+
  have l: "length (take n s) = k + 4" using s n len by simp
  have "take 2 (take n s) = stars" using s ab n by (simp add: stars_def)
  moreover have "drop (length (take n s) - 2) (take n s) = stars"
  proof -
    have "drop (k + 2) (take (k + 4) (a # b # rest)) = take 2 (drop k rest)"
      by (simp add: drop_take)
    with cl show ?thesis unfolding l using s n by simp
  qed
  moreover have "strip_stars (take n s) = take k rest"
  proof -
    have "k + 4 = Suc (Suc (k + 2))" by simp
    then have "take (k + 4) (a # b # rest) = a # b # take (k + 2) rest"
      by (simp only: take_Suc_Cons)
    then show ?thesis
      unfolding strip_stars_def l using s n by (simp add: min_def)
  qed
  ultimately show ?thesis
    using l nl n len s by (simp add: bold_span_def delimited_span_def)
qed

lemma concat_split_bold_from: "concat (split_bold_from acc s) = rev acc @ s"
  by (induction acc s rule: split_bold_from.induct) (auto split: option.splits)

lemma odd_split_bold_from:
  "i < length (split_bold_from acc s) \<Longrightarrow> odd i \<Longrightarrow> bold_span (split_bold_from acc s ! i)"
proof (induction acc s arbitrary: i rule: split_bold_from.induct)
  case (1 acc)
  then show ?case by (cases i) simp_all
next
  case (2 acc x xs)
  show ?case
  proof (cases "match_bold (x # xs)")
    case None
    with 2 show ?thesis by simp
  next
    case (Some n)
    from "2.prems"(2) obtain j where i: "i = Suc j" and j: "even j" by (cases i) auto
    show ?thesis
    proof (cases j)
      case 0
      with i Some match_bold_Some [OF Some] show ?thesis by simp
    next
      case (Suc m)
      with j have m: "odd m" by simp
      from "2.prems"(1) i Suc Some have "m < length (split_bold_from [] (drop n (x # xs)))"
        by simp
      from "2.IH"(2) [OF Some this m] i Suc Some show ?thesis by simp
    qed
  qed
qed

lemma delimited_span_starts_ends:
  "delimited_span s \<Longrightarrow> startsWith s stars \<and> endsWith s stars"
  by (simp add: delimited_span_def startsWith_def endsWith_def stars_def numeral_2_eq_2)

lemma delimited_span_slice: "delimited_span s \<Longrightarrow> slice_str s 2 (- 2) = strip_stars s"
  by (simp add: delimited_span_def slice_str_def strip_stars_def Let_def nat_diff_distrib'
        min_def max_def)

lemma render_span_delimited: "delimited_span s \<Longrightarrow> render_span s = Strong (strip_stars s)"
  by (simp add: render_span_def delimited_span_starts_ends delimited_span_slice)

lemma render_span_plain:
  "\<not> (startsWith s stars \<and> endsWith s stars) \<Longrightarrow> render_span s = Span s"
  by (auto simp: render_span_def)

text \<open>
  The spans of a prose chunk, concatenated, are the chunk, and those at odd positions are
  the matches of the pattern.
\<close>

lemma split_bold_spans:
  "concat (split_bold part) = part
   \<and> (\<forall>i < length (split_bold part). odd i \<longrightarrow> bold_span (split_bold part ! i))"
  by (simp add: split_bold_def concat_split_bold_from odd_split_bold_from)

text \<open>
  The source takes a span for emphasized text when
  \<^verbatim>\<open>subPart.startsWith('**') && subPart.endsWith('**')\<close>. That is the case of every
  two-asterisk-delimited span, and of two more strings, in which the asterisks at the start
  are also the asterisks at the end.
\<close>

lemma short_starred:
  assumes "startsWith s stars" and "endsWith s stars" and "\<not> delimited_span s"
  shows "s = stars \<or> s = stars @ [asterisk]"
proof -
  from assms have t: "take 2 s = stars" and d: "drop (length s - 2) s = stars"
    and l2: "2 \<le> length s" and l4: "length s < 4"
    by (auto simp: startsWith_def endsWith_def delimited_span_def stars_def numeral_2_eq_2)
  from l2 l4 have "length s = 2 \<or> length s = 3" by arith
  then show ?thesis
  proof
    assume "length s = 2"
    with t show ?thesis by simp
  next
    assume l: "length s = 3"
    then obtain a b c where s: "s = [a, b, c]"
      by (auto simp: length_Suc_conv numeral_3_eq_3)
    with t d show ?thesis by (simp add: stars_def)
  qed
qed

text \<open>
  So the source renders a span as the specification says for every span but \<^verbatim>\<open>**\<close> and
  \<^verbatim>\<open>***\<close>.
\<close>

lemma render_span_agrees:
  "render_span s = spec_render_span s \<longleftrightarrow> s \<noteq> stars \<and> s \<noteq> stars @ [asterisk]"
proof
  assume eq: "render_span s = spec_render_span s"
  show "s \<noteq> stars \<and> s \<noteq> stars @ [asterisk]"
  proof (rule ccontr)
    assume "\<not> (s \<noteq> stars \<and> s \<noteq> stars @ [asterisk])"
    then have "s = stars \<or> s = stars @ [asterisk]" by blast
    then have "render_span s \<noteq> spec_render_span s"
      by (auto simp: render_span_def spec_render_span_def delimited_span_def stars_def
            startsWith_def endsWith_def)
    with eq show False by contradiction
  qed
next
  assume ne: "s \<noteq> stars \<and> s \<noteq> stars @ [asterisk]"
  show "render_span s = spec_render_span s"
  proof (cases "delimited_span s")
    case True
    then show ?thesis by (simp add: render_span_delimited spec_render_span_def)
  next
    case False
    with ne short_starred [of s] have "\<not> (startsWith s stars \<and> endsWith s stars)" by blast
    with False show ?thesis by (simp add: render_span_plain spec_render_span_def)
  qed
qed

text \<open>
  Claim C5. A prose chunk is split on two-asterisk-delimited spans; a span matching that
  pattern renders as emphasized text with the surrounding asterisks stripped, every other
  span renders as plain text unchanged, and a chunk that is empty after trimming produces
  nothing. The source misses this at the prose chunk \<^verbatim>\<open>**\<close>: it is not blank, it is one
  span, and the span is not two-asterisk-delimited, so the claim has it rendered as the
  plain text \<^verbatim>\<open>**\<close>. The source finds two asterisks at its start and two at its end,
  the same two, strips them and renders emphasized text with nothing in it: the two
  characters are lost from the display.
\<close>

theorem prose_stars_swallowed:
  "\<not> blank stars
   \<and> split_bold stars = [stars]
   \<and> \<not> delimited_span stars
   \<and> spec_prose_segment stars = Some (TextBlock [Span stars])
   \<and> prose_segment stars = Some (TextBlock [Strong []])
   \<and> SimpleMarkdownRenderer stars = Some [Some (TextBlock [Strong []])]"
  by (simp add: render_eval spec_prose_segment_def spec_render_span_def delimited_span_def
        blank_def)

text \<open>
  The examples of the specification, \<^verbatim>\<open>render("a**b**c")\<close> and a blank chunk, on which
  the source does as the claim says.
\<close>

lemma prose_examples:
  "prose_segment (js ''a**b**c'')
     = Some (TextBlock [Span (js ''a''), Strong (js ''b''), Span (js ''c'')])
   \<and> prose_segment (js ''a**b**c'') = spec_prose_segment (js ''a**b**c'')
   \<and> prose_segment (js '' \<newline>'') = None
   \<and> spec_prose_segment (js '' \<newline>'') = None"
  by (simp add: render_eval spec_prose_segment_def spec_render_span_def delimited_span_def
        blank_def strip_stars_def)

section \<open>Credential resolution\<close>

lemma getGenAI_no_key:
  "\<not> truthy (API_KEY e) \<Longrightarrow> \<not> truthy (GEMINI_API_KEY e) \<Longrightarrow> getGenAI e = Inl configuration_error"
  by (auto simp: getGenAI_def or_else_def truthy_def Let_def split: option.splits)

lemma initChat_no_key:
  "\<not> truthy (API_KEY e) \<Longrightarrow> \<not> truthy (GEMINI_API_KEY e) \<Longrightarrow> initChat e = None"
  by (simp add: initChat_def getGenAI_no_key)

text \<open>
  Claim C10. \<^verbatim>\<open>getGenAI\<close> prefers \<^verbatim>\<open>API_KEY\<close>: a non-empty \<^verbatim>\<open>API_KEY\<close> is the key of the
  client whatever \<^verbatim>\<open>GEMINI_API_KEY\<close> holds; when \<^verbatim>\<open>API_KEY\<close> is missing or empty, a
  non-empty \<^verbatim>\<open>GEMINI_API_KEY\<close> is the key; and \<^verbatim>\<open>getGenAI\<close> throws, the configuration
  error and nothing else, exactly when both are missing or empty.
\<close>

theorem getGenAI_precedence:
  "(API_KEY e = Some k \<and> k \<noteq> [] \<longrightarrow> getGenAI e = Inr (GoogleGenAI k))
   \<and> (\<not> truthy (API_KEY e) \<and> GEMINI_API_KEY e = Some g \<and> g \<noteq> []
        \<longrightarrow> getGenAI e = Inr (GoogleGenAI g))
   \<and> (isl (getGenAI e) \<longleftrightarrow> \<not> truthy (API_KEY e) \<and> \<not> truthy (GEMINI_API_KEY e))
   \<and> (isl (getGenAI e) \<longrightarrow> getGenAI e = Inl configuration_error)"
  by (auto simp: getGenAI_def or_else_def truthy_def Let_def split: option.splits)

theorem getGenAI_precedence_witness:
  "getGenAI \<lparr>API_KEY = Some (js ''a''), GEMINI_API_KEY = Some (js ''g'')\<rparr>
     = Inr (GoogleGenAI (js ''a''))
   \<and> getGenAI \<lparr>API_KEY = Some [], GEMINI_API_KEY = Some (js ''g'')\<rparr>
     = Inr (GoogleGenAI (js ''g''))
   \<and> getGenAI \<lparr>API_KEY = None, GEMINI_API_KEY = Some (js ''g'')\<rparr>
     = Inr (GoogleGenAI (js ''g''))
   \<and> getGenAI \<lparr>API_KEY = None, GEMINI_API_KEY = Some []\<rparr> = Inl configuration_error
   \<and> getGenAI \<lparr>API_KEY = Some [], GEMINI_API_KEY = None\<rparr> = Inl configuration_error"
  using
    getGenAI_precedence [of "\<lparr>API_KEY = Some (js ''a''), GEMINI_API_KEY = Some (js ''g'')\<rparr>"
      "js ''a''" "[]"]
    getGenAI_precedence [of "\<lparr>API_KEY = Some [], GEMINI_API_KEY = Some (js ''g'')\<rparr>"
      "[]" "js ''g''"]
    getGenAI_precedence [of "\<lparr>API_KEY = None, GEMINI_API_KEY = Some (js ''g'')\<rparr>"
      "[]" "js ''g''"]
    getGenAI_precedence [of "\<lparr>API_KEY = None, GEMINI_API_KEY = Some []\<rparr>" "[]" "[]"]
    getGenAI_precedence [of "\<lparr>API_KEY = Some [], GEMINI_API_KEY = None\<rparr>" "[]" "[]"]
  by (simp add: truthy_def js_def)

section \<open>The generation panel\<close>

lemma run_gen_snoc: "run_gen st (evs @ [ev]) = apply_gen (run_gen st evs) ev"
  by (simp add: run_gen_def)

lemma generateCode_last:
  "\<not> blank (description st) \<Longrightarrow> \<exists>evs. generateCode e resp st = evs @ [SetLoading False]"
  by (simp add: generateCode_def trim_empty_iff)

text \<open>
  Claim C7. When the description is blank (empty, or white space only),
  \<^verbatim>\<open>generateCode\<close> has no effect at all: it issues no request and the state, the result
  buffer with it, is what it was.
\<close>

theorem generate_blank_noop:
  "blank (description st) \<Longrightarrow>
     generateCode e resp st = []
     \<and> gen_requests (generateCode e resp st) = []
     \<and> run_gen st (generateCode e resp st) = st"
  by (simp add: trim_empty_iff generateCode_def gen_requests_def run_gen_def)

theorem generate_blank_noop_witness:
  "blank (js '' \<newline>  '')
   \<and> generateCode \<lparr>API_KEY = Some (js ''k''), GEMINI_API_KEY = None\<rparr>
        (Stream [Some (js ''x'')] None)
        \<lparr>description = js '' \<newline>  '', language = js ''C'', loading = False,
           output = Some (js ''old'')\<rparr> = []"
  using generate_blank_noop
    [of "\<lparr>description = js '' \<newline>  '', language = js ''C'', loading = False,
            output = Some (js ''old'')\<rparr>"
        "\<lparr>API_KEY = Some (js ''k''), GEMINI_API_KEY = None\<rparr>" "Stream [Some (js ''x'')] None"]
  by (simp add: blank_def js_def is_white_space_def is_line_terminator_def)

subsection \<open>One generation at a time\<close>

lemma is_output_stream_output: "list_all is_output (stream_output full cs)"
  by (induction full cs rule: stream_output.induct) (auto split: option.splits)

lemma is_output_gen_catch: "list_all is_output (gen_catch err)"
  by (simp add: gen_catch_def)

lemma generateCode_no_client:
  assumes "\<not> blank (description st)" and "getGenAI e = Inl err"
  shows "sync_part (generateCode e resp st) = generateCode e resp st"
    and "async_part (generateCode e resp st) = []"
    and "\<not> loading (run_gen st (generateCode e resp st))"
    and "generateCode e resp st \<noteq> []"
  using assms
  by (simp_all add: generateCode_def trim_empty_iff gen_catch_def run_gen_def)

text \<open>
  With a client, the flag is set when the handler returns, and what is left of the
  invocation writes to the buffer and then clears the flag.
\<close>

lemma generateCode_client:
  assumes "\<not> blank (description st)" and "getGenAI e = Inr ai"
  shows "loading (run_gen st (sync_part (generateCode e resp st)))"
    and "settles (async_part (generateCode e resp st))"
    and "generateCode e resp st \<noteq> []"
  using assms
  by (auto simp: generateCode_def trim_empty_iff run_gen_def settles_def
        is_output_stream_output is_output_gen_catch butlast_append gen_catch_def
      split: response.splits option.splits)

lemma busy_snoc: "busy (rs @ [r]) = busy rs + (if r = [] then 0 else 1)"
  by (simp add: busy_def)

lemma busy_update:
  assumes "i < length rs" and "rs ! i = ev # rest"
  shows "busy rs = Suc (busy (take i rs) + busy (drop (Suc i) rs))"
    and "busy (rs[i := rest])
           = busy (take i rs) + busy (drop (Suc i) rs) + (if rest = [] then 0 else 1)"
proof -
  have "rs = take i rs @ (ev # rest) # drop (Suc i) rs"
    using assms by (metis id_take_nth_drop)
  then have "busy rs = busy (take i rs @ (ev # rest) # drop (Suc i) rs)" by simp
  then show "busy rs = Suc (busy (take i rs) + busy (drop (Suc i) rs))"
    by (simp add: busy_def)
  have "rs[i := rest] = take i rs @ rest # drop (Suc i) rs"
    using assms(1) by (rule upd_conv_take_nth_drop)
  then show "busy (rs[i := rest])
               = busy (take i rs) + busy (drop (Suc i) rs) + (if rest = [] then 0 else 1)"
    by (simp add: busy_def)
qed

lemma settles_Cons:
  "settles (ev # rest) \<Longrightarrow>
     (rest = [] \<and> ev = SetLoading False) \<or> (rest \<noteq> [] \<and> is_output ev \<and> settles rest)"
  by (cases rest) (auto simp: settles_def)

lemma list_all_update: "list_all P xs \<Longrightarrow> P x \<Longrightarrow> list_all P (xs[i := x])"
  by (auto simp: list_all_iff dest: set_update_subset_insert [THEN subsetD])

lemma apply_gen_output: "is_output ev \<Longrightarrow> loading (apply_gen st ev) = loading st"
  by (cases ev) simp_all

lemma panel_ok_step: "panel_ok p \<Longrightarrow> panel_ok (panel_step e p a)"
proof (cases a)
  case (Click resp)
  assume ok: "panel_ok p"
  show ?thesis
  proof (cases "generate_disabled (gen p)")
    case True
    with ok Click show ?thesis by (simp add: generate_click_def)
  next
    case False
    then have nl: "\<not> loading (gen p)" and nb: "\<not> blank (description (gen p))"
      by (simp_all add: generate_disabled_def trim_empty_iff)
    from ok nl have b0: "busy (running p) = 0" by (auto simp: panel_ok_def)
    have gc: "generate_click e resp (gen p) = generateCode e resp (gen p)"
      using False by (simp add: generate_click_def)
    show ?thesis
    proof (cases "getGenAI e")
      case (Inl err)
      from generateCode_no_client [OF nb Inl, of resp] ok b0 Click gc show ?thesis
        by (simp add: panel_ok_def busy_snoc Let_def)
    next
      case (Inr ai)
      from generateCode_client [OF nb Inr, of resp]
      have "async_part (generateCode e resp (gen p)) \<noteq> []"
        by (auto simp: settles_def)
      with generateCode_client [OF nb Inr, of resp] ok b0 Click gc show ?thesis
        by (simp add: panel_ok_def busy_snoc Let_def)
    qed
  qed
next
  case (SetDescription d)
  assume "panel_ok p"
  with SetDescription show ?thesis by (simp add: panel_ok_def)
next
  case (SetLanguage l)
  assume "panel_ok p"
  with SetLanguage show ?thesis by (simp add: panel_ok_def)
next
  case (Resume i)
  assume ok: "panel_ok p"
  show ?thesis
  proof (cases "i < length (running p)")
    case False
    with ok Resume show ?thesis by simp
  next
    case True
    show ?thesis
    proof (cases "running p ! i")
      case Nil
      with ok Resume True show ?thesis by simp
    next
      case (Cons ev rest)
      from ok True have "running p ! i = [] \<or> settles (running p ! i)"
        by (simp add: panel_ok_def list_all_length)
      with Cons have s: "settles (ev # rest)" by simp
      note bu = busy_update [OF True Cons]
      from ok bu(1) have z: "busy (take i (running p)) + busy (drop (Suc i) (running p)) = 0"
        and ld: "loading (gen p)"
        by (auto simp: panel_ok_def)
      have step: "panel_step e p a
                    = p\<lparr>gen := apply_gen (gen p) ev, running := (running p)[i := rest]\<rparr>"
        using Resume True Cons by simp
      from settles_Cons [OF s] show ?thesis
      proof
        assume "rest = [] \<and> ev = SetLoading False"
        with ok z bu(2) show ?thesis
          unfolding step by (simp add: panel_ok_def list_all_update)
      next
        assume r: "rest \<noteq> [] \<and> is_output ev \<and> settles rest"
        with ok z bu(2) ld show ?thesis
          unfolding step by (simp add: panel_ok_def list_all_update apply_gen_output)
      qed
    qed
  qed
qed

lemma panel_ok_after: "panel_ok (panel_after e acts)"
proof (induction acts rule: rev_induct)
  case Nil
  show ?case by (simp add: panel_after_def initial_panel_def panel_ok_def busy_def)
next
  case (snoc a acts)
  then show ?case by (simp add: panel_after_def panel_ok_step)
qed

text \<open>
  Claim C3. Whatever the user has done and however far the streams have come, at most
  one generation is in flight, and one is in flight exactly when the loading flag is set:
  \<^verbatim>\<open>generateCode\<close> sets the flag before it gives up control and clears it with its last
  effect, and the button that invokes it is disabled while the flag is set. So invoking
  generate while a generation is in flight is a no-op: the click has no effect, no
  request is issued, and the panel, the result buffer with it, is what it was.
  (The guard is the button's. \<^verbatim>\<open>generateCode\<close> has no test of the flag of its own, and
  nothing else calls it.)
\<close>

theorem generate_reentrancy_guard:
  "busy (running (panel_after e acts)) \<le> 1
   \<and> (in_flight (panel_after e acts) \<longleftrightarrow> loading (gen (panel_after e acts)))
   \<and> (in_flight (panel_after e acts) \<longrightarrow>
        generate_click e resp (gen (panel_after e acts)) = []
        \<and> gen_requests (generate_click e resp (gen (panel_after e acts))) = []
        \<and> panel_step e (panel_after e acts) (Click resp) = panel_after e acts)"
proof -
  let ?p = "panel_after e acts"
  have ok: "panel_ok ?p" by (rule panel_ok_after)
  then have b: "busy (running ?p) \<le> 1" and l: "loading (gen ?p) \<longleftrightarrow> busy (running ?p) = 1"
    by (simp_all add: panel_ok_def)
  from b l have fl: "in_flight ?p \<longleftrightarrow> loading (gen ?p)"
    by (auto simp: in_flight_def)
  have "generate_click e resp (gen ?p) = []" if "in_flight ?p"
    using that fl by (simp add: generate_click_def generate_disabled_def)
  then show ?thesis using b fl by (simp add: gen_requests_def)
qed

text \<open>
  The user types \<^verbatim>\<open>sort\<close> and clicks; the request is out, the buffer is cleared, the
  answer \<^verbatim>\<open>x\<close> has not arrived. A second click changes nothing. When the answer has
  arrived and the flag is cleared, nothing is in flight.
\<close>

theorem generate_reentrancy_guard_witness:
  "panel_after \<lparr>API_KEY = Some (js ''k''), GEMINI_API_KEY = None\<rparr>
     [SetDescription (js ''sort''), Click (Stream [Some (js ''x'')] None)]
     = \<lparr>gen = \<lparr>description = js ''sort'', language = js ''C'', loading = True,
                output = Some []\<rparr>,
        running = [[SetOutput (js ''x''), SetLoading False]]\<rparr>
   \<and> in_flight (panel_after \<lparr>API_KEY = Some (js ''k''), GEMINI_API_KEY = None\<rparr>
        [SetDescription (js ''sort''), Click (Stream [Some (js ''x'')] None)])
   \<and> panel_step \<lparr>API_KEY = Some (js ''k''), GEMINI_API_KEY = None\<rparr>
        (panel_after \<lparr>API_KEY = Some (js ''k''), GEMINI_API_KEY = None\<rparr>
           [SetDescription (js ''sort''), Click (Stream [Some (js ''x'')] None)])
        (Click (Stream [Some (js ''y'')] None))
       = panel_after \<lparr>API_KEY = Some (js ''k''), GEMINI_API_KEY = None\<rparr>
           [SetDescription (js ''sort''), Click (Stream [Some (js ''x'')] None)]
   \<and> panel_after \<lparr>API_KEY = Some (js ''k''), GEMINI_API_KEY = None\<rparr>
        [SetDescription (js ''sort''), Click (Stream [Some (js ''x'')] None),
         Click (Stream [Some (js ''y'')] None), Resume 0, Resume 0]
       = \<lparr>gen = \<lparr>description = js ''sort'', language = js ''C'', loading = False,
                  output = Some (js ''x'')\<rparr>,
          running = [[]]\<rparr>
   \<and> \<not> in_flight (panel_after \<lparr>API_KEY = Some (js ''k''), GEMINI_API_KEY = None\<rparr>
        [SetDescription (js ''sort''), Click (Stream [Some (js ''x'')] None),
         Click (Stream [Some (js ''y'')] None), Resume 0, Resume 0])"
proof -
  let ?e = "\<lparr>API_KEY = Some (js ''k''), GEMINI_API_KEY = None\<rparr>"
  let ?acts = "[SetDescription (js ''sort''), Click (Stream [Some (js ''x'')] None)]"
  let ?more = "[SetDescription (js ''sort''), Click (Stream [Some (js ''x'')] None),
         Click (Stream [Some (js ''y'')] None), Resume 0, Resume 0]"
  have k: "js ''k'' \<noteq> []" "js ''x'' \<noteq> []" "js ''sort'' \<noteq> []"
    by (simp_all add: js_def)
  have p1: "panel_after ?e ?acts
     = \<lparr>gen = \<lparr>description = js ''sort'', language = js ''C'', loading = True,
                output = Some []\<rparr>,
        running = [[SetOutput (js ''x''), SetLoading False]]\<rparr>"
    by (simp add: panel_after_def initial_panel_def generate_click_def generate_disabled_def
          trim_sort trim_Nil generateCode_def getGenAI_def or_else_def truthy_def run_gen_def
          Let_def k)
  have f1: "in_flight (panel_after ?e ?acts)"
    unfolding p1 by (simp add: in_flight_def busy_def)
  from generate_reentrancy_guard [of ?e ?acts "Stream [Some (js ''y'')] None"] f1
  have c: "panel_step ?e (panel_after ?e ?acts) (Click (Stream [Some (js ''y'')] None))
             = panel_after ?e ?acts"
    by blast
  have p2: "panel_after ?e ?more
       = \<lparr>gen = \<lparr>description = js ''sort'', language = js ''C'', loading = False,
                  output = Some (js ''x'')\<rparr>,
          running = [[]]\<rparr>"
    by (simp add: panel_after_def initial_panel_def generate_click_def generate_disabled_def
          trim_sort trim_Nil generateCode_def getGenAI_def or_else_def truthy_def run_gen_def
          Let_def k)
  have f2: "\<not> in_flight (panel_after ?e ?more)"
    unfolding p2 by (simp add: in_flight_def busy_def)
  from p1 f1 c p2 f2 show ?thesis by (intro conjI)
qed

section \<open>The chat panel: one exchange\<close>

lemma run_chat_append:
  "run_chat st (xs @ ys) =
     (case run_chat st xs of Inl f \<Rightarrow> Inl f | Inr st' \<Rightarrow> run_chat st' ys)"
  by (induction xs arbitrary: st) (auto split: sum.splits)

lemma prefix_text_Cons: "prefix_text (c # cs) (Suc j) = chunk_text c @ prefix_text cs j"
  by (simp add: prefix_text_def)

lemma length_stream_writes: "length (stream_writes rs full q cs) = q + length cs"
  by (induction rs full q cs rule: stream_writes.induct) simp_all


lemma nth_replicate_append:
  "(replicate n x @ ys) ! k = (if k < n then x else ys ! (k - n))"
  by (simp add: nth_append)

text \<open>
  Whatever the schedule, the write at position \<open>k\<close> is the buffer after some number
  \<open>j\<close> of chunks, and \<open>j\<close> is past the chunks whose updaters were queued before it.
\<close>

lemma nth_stream_writes:
  "k < q + length cs \<Longrightarrow>
     \<exists>j. j \<le> length cs \<and> k < q + j
         \<and> stream_writes rs full q cs ! k = full @ prefix_text cs j"
proof (induction rs full q cs arbitrary: k rule: stream_writes.induct)
  case (1 rs full q)
  then show ?case by (auto simp: prefix_text_def)
next
  case (2 full q c cs)
  show ?case
  proof (cases "k < Suc q")
    case True
    then have "stream_writes [] full q (c # cs) ! k = full @ prefix_text (c # cs) 1"
      by (simp add: nth_replicate_append prefix_text_def del: replicate.simps)
    with True show ?thesis by (intro exI [of _ 1]) auto
  next
    case False
    with "2.prems" have k': "k - Suc q < 0 + length cs" by simp
    from "2.IH" [OF k'] obtain j where j: "j \<le> length cs"
      and kj: "k - Suc q < 0 + j"
      and w: "stream_writes [] (full @ chunk_text c) 0 cs ! (k - Suc q)
                = (full @ chunk_text c) @ prefix_text cs j"
      by blast
    have "stream_writes [] full q (c # cs) ! k = full @ prefix_text (c # cs) (Suc j)"
      using False w
      by (simp add: nth_replicate_append prefix_text_Cons del: replicate.simps)
    moreover have "Suc j \<le> length (c # cs)" using j by simp
    moreover have "k < q + Suc j" using False kj by simp
    ultimately show ?thesis by blast
  qed
next
  case (3 r rs full q c cs)
  show ?case
  proof (cases r)
    case True
    show ?thesis
    proof (cases "k < Suc q")
      case k: True
      then have "stream_writes (r # rs) full q (c # cs) ! k = full @ prefix_text (c # cs) 1"
        using True by (simp add: nth_replicate_append prefix_text_def del: replicate.simps)
      with k show ?thesis by (intro exI [of _ 1]) auto
    next
      case False
      with "3.prems" have k': "k - Suc q < 0 + length cs" by simp
      from "3.IH"(1) [OF True k'] obtain j where j: "j \<le> length cs"
        and kj: "k - Suc q < 0 + j"
        and w: "stream_writes rs (full @ chunk_text c) 0 cs ! (k - Suc q)
                  = (full @ chunk_text c) @ prefix_text cs j"
        by blast
      have "stream_writes (r # rs) full q (c # cs) ! k = full @ prefix_text (c # cs) (Suc j)"
        using True False w
        by (simp add: nth_replicate_append prefix_text_Cons del: replicate.simps)
      moreover have "Suc j \<le> length (c # cs)" using j by simp
      moreover have "k < q + Suc j" using False kj by simp
      ultimately show ?thesis by blast
    qed
  next
    case False
    from "3.prems" have k': "k < Suc q + length cs" by simp
    from "3.IH"(2) [OF False k'] obtain j where j: "j \<le> length cs"
      and kj: "k < Suc q + j"
      and w: "stream_writes rs (full @ chunk_text c) (Suc q) cs ! k
                = (full @ chunk_text c) @ prefix_text cs j"
      by blast
    have "stream_writes (r # rs) full q (c # cs) ! k = full @ prefix_text (c # cs) (Suc j)"
      using False w by (simp add: prefix_text_Cons)
    moreover have "Suc j \<le> length (c # cs)" using j by simp
    moreover have "k < q + Suc j" using kj by simp
    ultimately show ?thesis by blast
  qed
qed


lemma last_stream_writes:
  assumes "cs \<noteq> []"
  shows "last (stream_writes rs [] 0 cs) = prefix_text cs (length cs)"
proof -
  let ?ws = "stream_writes rs [] 0 cs"
  have len: "length ?ws = length cs" by (simp add: length_stream_writes)
  with assms have ne: "?ws \<noteq> []" by auto
  have "length cs - 1 < 0 + length cs" using assms by simp
  from nth_stream_writes [OF this, of rs "[]"] obtain j where "j \<le> length cs"
    and "length cs - 1 < 0 + j" and w: "?ws ! (length cs - 1) = [] @ prefix_text cs j"
    by blast
  then have "j = length cs" by simp
  with w have "?ws ! (length cs - 1) = prefix_text cs (length cs)" by simp
  moreover have "last ?ws = ?ws ! (length ?ws - 1)" using ne by (rule last_conv_nth)
  ultimately show ?thesis by (simp only: len)
qed

text \<open>
  A run of overwrites on a transcript that is not empty: the last entry ends with the last
  text written, the others are untouched.
\<close>

lemma run_overwrites:
  "messages st \<noteq> [] \<Longrightarrow>
     run_chat st (map OverwriteLast ws) =
       Inr (if ws = [] then st
            else st\<lparr>messages := butlast (messages st)
                      @ [(last (messages st))\<lparr>text := last ws\<rparr>]\<rparr>)"
proof (induction ws arbitrary: st)
  case Nil
  show ?case by simp
next
  case (Cons w ws)
  let ?st1 = "st\<lparr>messages := butlast (messages st) @ [(last (messages st))\<lparr>text := w\<rparr>]\<rparr>"
  have ne: "messages ?st1 \<noteq> []" by simp
  have step: "run_chat st (map OverwriteLast (w # ws)) = run_chat ?st1 (map OverwriteLast ws)"
    using Cons.prems by simp
  show ?case
    unfolding step Cons.IH [OF ne] by simp
qed






lemma run_send_stream_all:
  "\<exists>st'. run_chat st (send_stream rs sess m (Stream cs ending)) = Inr st'
     \<and> take (Suc (length (messages st))) (messages st')
         = messages st @ [\<lparr>role = js ''model'', text = prefix_text cs (length cs)\<rparr>]
     \<and> input st' = input st \<and> isTyping st' = isTyping st \<and> chatSession st' = chatSession st"
proof (cases "cs = []")
  case True
  then show ?thesis
    by (cases ending)
       (simp_all add: send_stream_def stream_messages_def run_chat_append chat_catch_def
          prefix_text_def)
next
  case False
  then have ne: "stream_writes rs [] 0 cs \<noteq> []"
    using length_stream_writes [of rs "[]" 0 cs] by auto
  show ?thesis
    by (cases ending)
       (simp_all add: send_stream_def stream_messages_def run_chat_append run_overwrites ne
          last_stream_writes [OF False] chat_catch_def)
qed

lemma run_send_stream_total:
  "\<exists>st'. run_chat st (send_stream rs sess m resp) = Inr st'"
proof (cases resp)
  case (Rejected err)
  then show ?thesis by (simp add: send_stream_def chat_catch_def)
next
  case (Stream cs ending)
  with run_send_stream_all [of st rs sess m cs ending] show ?thesis by blast
qed





section \<open>Missing credential\<close>

lemma sendMessage_no_key:
  assumes "\<not> truthy (API_KEY e)" and "\<not> truthy (GEMINI_API_KEY e)" and "chatSession st = None"
  shows "sendMessage e rs resp st =
           (if blank (input st) then []
            else [Append \<lparr>role = js ''user'', text = input st\<rparr>, SetInput [], SetIsTyping True,
                  Append \<lparr>role = js ''model'',
                          text = chat_diagnostic (message_or_unknown missing_key_error)\<rparr>,
                  SetIsTyping False])"
  using assms by (simp add: sendMessage_def trim_empty_iff initChat_no_key chat_catch_def)

lemma apply_chat_session:
  "apply_chat st ev = Inr st' \<Longrightarrow> \<not> sets_session ev \<Longrightarrow> chatSession st' = chatSession st"
  by (cases ev) (auto split: if_splits)

text \<open>
  Without a credential the session reference stays empty: mounting cannot fill it, and no
  effect of any exchange can.
\<close>

lemma reachable_no_session:
  assumes "\<not> truthy (API_KEY e)" and "\<not> truthy (GEMINI_API_KEY e)"
  shows "reachable e st \<Longrightarrow> chatSession st = None"
proof (induction rule: reachable.induct)
  case mounted
  show ?case using assms by (simp add: mount_def initChat_no_key)
next
  case (edited st s)
  then show ?case by simp
next
  case (effect st st0 ev resp st')
  from effect.hyps(3) have "\<not> sets_session ev"
    by (auto simp: sendMessage_no_key [OF assms effect.IH(2)] split: if_splits)
  from apply_chat_session [OF effect.hyps(4) this] effect.IH(1) show ?case by simp
qed

text \<open>The two diagnostics of a missing credential, letter by letter.\<close>

lemma gen_diagnostic_configuration_error:
  "gen_diagnostic (message_or_unknown configuration_error) = js
            ''**CONFIGURATION ERROR**\<newline>\<newline>Configuration Error: The API_KEY or GEMINI_API_KEY environment variable is missing. Please add it in your Vercel/Netlify settings.\<newline>\<newline>To fix this on Vercel:\<newline>1. Go to **Settings** > **Environment Variables**.\<newline>2. Add `API_KEY` or `GEMINI_API_KEY` with your Google Gemini API Key.\<newline>3. Redeploy your project.''"
  by (simp add: gen_diagnostic_def message_or_unknown_def configuration_error_def js_def)

lemma chat_diagnostic_missing_key_error:
  "chat_diagnostic (message_or_unknown missing_key_error) = js
            ''**CONFIGURATION ERROR**: Missing API_KEY or GEMINI_API_KEY environment variable.. Please check Vercel settings.''"
  by (simp add: chat_diagnostic_def message_or_unknown_def missing_key_error_def js_def)

text \<open>
  Claim C8. When neither \<^verbatim>\<open>API_KEY\<close> nor \<^verbatim>\<open>GEMINI_API_KEY\<close> holds a non-empty value:
  every generation attempt (a call of \<^verbatim>\<open>generateCode\<close> with a description that is not
  blank) issues no request and ends with the loading flag cleared and the
  configuration-error diagnostic, the text below, in the result buffer; and every send
  attempt (a call of \<^verbatim>\<open>sendMessage\<close> with an input that is not blank, in any state the
  chat panel can reach) issues no request and ends with the user's entry and a model entry
  that holds the configuration-error diagnostic, the text below, appended to the
  transcript.
\<close>

theorem missing_credential_diagnostic:
  assumes "\<not> truthy (API_KEY e)" and "\<not> truthy (GEMINI_API_KEY e)"
  shows "(\<not> blank (description gst) \<longrightarrow>
            gen_requests (generateCode e resp gst) = []
            \<and> run_gen gst (generateCode e resp gst)
                = gst\<lparr>loading := False, output := Some (js
            ''**CONFIGURATION ERROR**\<newline>\<newline>Configuration Error: The API_KEY or GEMINI_API_KEY environment variable is missing. Please add it in your Vercel/Netlify settings.\<newline>\<newline>To fix this on Vercel:\<newline>1. Go to **Settings** > **Environment Variables**.\<newline>2. Add `API_KEY` or `GEMINI_API_KEY` with your Google Gemini API Key.\<newline>3. Redeploy your project.'')\<rparr>)
       \<and> (reachable e cst \<and> \<not> blank (input cst) \<longrightarrow>
            chat_requests (sendMessage e rs resp' cst) = []
            \<and> run_chat cst (sendMessage e rs resp' cst)
                = Inr (cst\<lparr>messages := messages cst
                           @ [\<lparr>role = js ''user'', text = input cst\<rparr>,
                              \<lparr>role = js ''model'', text = js
            ''**CONFIGURATION ERROR**: Missing API_KEY or GEMINI_API_KEY environment variable.. Please check Vercel settings.''\<rparr>],
                         input := [], isTyping := False\<rparr>))"
proof (intro conjI impI)
  assume "\<not> blank (description gst)"
  then have g: "generateCode e resp gst
        = [SetLoading True, SetOutput [],
           SetOutput (gen_diagnostic (message_or_unknown configuration_error)), SetLoading False]"
    using assms by (simp add: generateCode_def trim_empty_iff getGenAI_no_key gen_catch_def)
  show "gen_requests (generateCode e resp gst) = []"
    by (simp add: g gen_requests_def)
  show "run_gen gst (generateCode e resp gst)
                = gst\<lparr>loading := False, output := Some (js
            ''**CONFIGURATION ERROR**\<newline>\<newline>Configuration Error: The API_KEY or GEMINI_API_KEY environment variable is missing. Please add it in your Vercel/Netlify settings.\<newline>\<newline>To fix this on Vercel:\<newline>1. Go to **Settings** > **Environment Variables**.\<newline>2. Add `API_KEY` or `GEMINI_API_KEY` with your Google Gemini API Key.\<newline>3. Redeploy your project.'')\<rparr>"
    unfolding g gen_diagnostic_configuration_error by (simp add: run_gen_def)
next
  assume c: "reachable e cst \<and> \<not> blank (input cst)"
  then have "chatSession cst = None" using reachable_no_session [OF assms] by blast
  from sendMessage_no_key [OF assms this, of rs resp'] c
  have s: "sendMessage e rs resp' cst =
            [Append \<lparr>role = js ''user'', text = input cst\<rparr>, SetInput [], SetIsTyping True,
                  Append \<lparr>role = js ''model'',
                          text = chat_diagnostic (message_or_unknown missing_key_error)\<rparr>,
                  SetIsTyping False]"
    by simp
  show "chat_requests (sendMessage e rs resp' cst) = []"
    by (simp add: s chat_requests_def)
  show "run_chat cst (sendMessage e rs resp' cst)
                = Inr (cst\<lparr>messages := messages cst
                           @ [\<lparr>role = js ''user'', text = input cst\<rparr>,
                              \<lparr>role = js ''model'', text = js
            ''**CONFIGURATION ERROR**: Missing API_KEY or GEMINI_API_KEY environment variable.. Please check Vercel settings.''\<rparr>],
                         input := [], isTyping := False\<rparr>)"
    unfolding s chat_diagnostic_missing_key_error by simp
qed

text \<open>
  With \<^verbatim>\<open>API_KEY\<close> undefined and \<^verbatim>\<open>GEMINI_API_KEY\<close> empty: a generation attempt (the
  buffer starts with the heading of the diagnostic) and a first message.
\<close>

theorem missing_credential_diagnostic_witness:
  "\<not> truthy (API_KEY \<lparr>API_KEY = None, GEMINI_API_KEY = Some []\<rparr>)
   \<and> \<not> truthy (GEMINI_API_KEY \<lparr>API_KEY = None, GEMINI_API_KEY = Some []\<rparr>)
   \<and> \<not> blank (js ''hi'')
   \<and> reachable \<lparr>API_KEY = None, GEMINI_API_KEY = Some []\<rparr>
        ((mount \<lparr>API_KEY = None, GEMINI_API_KEY = Some []\<rparr>)\<lparr>input := js ''hi''\<rparr>)
   \<and> run_gen \<lparr>description = js ''hi'', language = js ''C'', loading = False, output = None\<rparr>
        (generateCode \<lparr>API_KEY = None, GEMINI_API_KEY = Some []\<rparr> (Stream [Some (js ''x'')] None)
           \<lparr>description = js ''hi'', language = js ''C'', loading = False, output = None\<rparr>)
       = \<lparr>description = js ''hi'', language = js ''C'', loading = False,
          output = Some (js
            ''**CONFIGURATION ERROR**\<newline>\<newline>Configuration Error: The API_KEY or GEMINI_API_KEY environment variable is missing. Please add it in your Vercel/Netlify settings.\<newline>\<newline>To fix this on Vercel:\<newline>1. Go to **Settings** > **Environment Variables**.\<newline>2. Add `API_KEY` or `GEMINI_API_KEY` with your Google Gemini API Key.\<newline>3. Redeploy your project.'')\<rparr>
   \<and> startsWith (js
            ''**CONFIGURATION ERROR**\<newline>\<newline>Configuration Error: The API_KEY or GEMINI_API_KEY environment variable is missing. Please add it in your Vercel/Netlify settings.\<newline>\<newline>To fix this on Vercel:\<newline>1. Go to **Settings** > **Environment Variables**.\<newline>2. Add `API_KEY` or `GEMINI_API_KEY` with your Google Gemini API Key.\<newline>3. Redeploy your project.'') (js ''**CONFIGURATION ERROR**'')
   \<and> gen_requests
        (generateCode \<lparr>API_KEY = None, GEMINI_API_KEY = Some []\<rparr> (Stream [Some (js ''x'')] None)
           \<lparr>description = js ''hi'', language = js ''C'', loading = False, output = None\<rparr>) = []
   \<and> run_chat ((mount \<lparr>API_KEY = None, GEMINI_API_KEY = Some []\<rparr>)\<lparr>input := js ''hi''\<rparr>)
        (sendMessage \<lparr>API_KEY = None, GEMINI_API_KEY = Some []\<rparr> []
           (Stream [Some (js ''x'')] None)
           ((mount \<lparr>API_KEY = None, GEMINI_API_KEY = Some []\<rparr>)\<lparr>input := js ''hi''\<rparr>))
       = Inr \<lparr>messages =
                [\<lparr>role = js ''user'', text = js ''hi''\<rparr>,
                 \<lparr>role = js ''model'', text = js
            ''**CONFIGURATION ERROR**: Missing API_KEY or GEMINI_API_KEY environment variable.. Please check Vercel settings.''\<rparr>],
              input = [], isTyping = False, chatSession = None\<rparr>
   \<and> chat_requests
        (sendMessage \<lparr>API_KEY = None, GEMINI_API_KEY = Some []\<rparr> []
           (Stream [Some (js ''x'')] None)
           ((mount \<lparr>API_KEY = None, GEMINI_API_KEY = Some []\<rparr>)\<lparr>input := js ''hi''\<rparr>)) = []"
proof -
  let ?e = "\<lparr>API_KEY = None, GEMINI_API_KEY = Some []\<rparr>"
  let ?g = "\<lparr>description = js ''hi'', language = js ''C'', loading = False, output = None\<rparr>"
  let ?c = "(mount ?e)\<lparr>input := js ''hi''\<rparr>"
  have k1: "\<not> truthy (API_KEY ?e)" and k2: "\<not> truthy (GEMINI_API_KEY ?e)"
    by (simp_all add: truthy_def)
  have r: "reachable ?e ?c" by (rule reachable.edited) (rule reachable.mounted)
  have nb: "\<not> blank (js ''hi'')" by (rule not_blank_hi)
  have mc: "?c = \<lparr>messages = [], input = js ''hi'', isTyping = False, chatSession = None\<rparr>"
    by (simp add: mount_def initChat_def getGenAI_def or_else_def truthy_def)
  have sw: "startsWith (js
            ''**CONFIGURATION ERROR**\<newline>\<newline>Configuration Error: The API_KEY or GEMINI_API_KEY environment variable is missing. Please add it in your Vercel/Netlify settings.\<newline>\<newline>To fix this on Vercel:\<newline>1. Go to **Settings** > **Environment Variables**.\<newline>2. Add `API_KEY` or `GEMINI_API_KEY` with your Google Gemini API Key.\<newline>3. Redeploy your project.'') (js ''**CONFIGURATION ERROR**'')"
    by (simp add: startsWith_def js_def)
  note T = missing_credential_diagnostic
             [OF k1 k2, of ?g "Stream [Some (js ''x'')] None" ?c "[]"
                "Stream [Some (js ''x'')] None"]
  from T nb have G: "gen_requests (generateCode ?e (Stream [Some (js ''x'')] None) ?g) = []
            \<and> run_gen ?g (generateCode ?e (Stream [Some (js ''x'')] None) ?g)
                = ?g\<lparr>loading := False, output := Some (js
            ''**CONFIGURATION ERROR**\<newline>\<newline>Configuration Error: The API_KEY or GEMINI_API_KEY environment variable is missing. Please add it in your Vercel/Netlify settings.\<newline>\<newline>To fix this on Vercel:\<newline>1. Go to **Settings** > **Environment Variables**.\<newline>2. Add `API_KEY` or `GEMINI_API_KEY` with your Google Gemini API Key.\<newline>3. Redeploy your project.'')\<rparr>"
    by simp
  from T r nb have C: "chat_requests (sendMessage ?e [] (Stream [Some (js ''x'')] None) ?c) = []
            \<and> run_chat ?c (sendMessage ?e [] (Stream [Some (js ''x'')] None) ?c)
                = Inr (?c\<lparr>messages := messages ?c
                           @ [\<lparr>role = js ''user'', text = input ?c\<rparr>,
                              \<lparr>role = js ''model'', text = js
            ''**CONFIGURATION ERROR**: Missing API_KEY or GEMINI_API_KEY environment variable.. Please check Vercel settings.''\<rparr>],
                         input := [], isTyping := False\<rparr>)"
    by simp
  from G C k1 k2 nb r sw show ?thesis
    by (simp add: mc)
qed

section \<open>The loading flag and the typing flag\<close>

lemma sendMessage_runs:
  assumes "\<not> blank (input st)"
  shows "\<exists>evs st1. sendMessage e rs resp st = evs @ [SetIsTyping False] \<and> run_chat st evs = Inr st1"
proof -
  let ?pre = "[Append \<lparr>role = js ''user'', text = input st\<rparr>, SetInput [], SetIsTyping True]"
  let ?st3 = "st\<lparr>messages := messages st @ [\<lparr>role = js ''user'', text = input st\<rparr>],
                 input := [], isTyping := True\<rparr>"
  have pre: "run_chat st ?pre = Inr ?st3" by simp
  show ?thesis
  proof (cases "chatSession st")
    case (Some sess)
    obtain st1 where "run_chat ?st3 (send_stream rs sess (input st) resp) = Inr st1"
      using run_send_stream_total by blast
    then have "run_chat st (?pre @ send_stream rs sess (input st) resp) = Inr st1"
      unfolding run_chat_append pre by simp
    moreover have "sendMessage e rs resp st
        = (?pre @ send_stream rs sess (input st) resp) @ [SetIsTyping False]"
      using assms Some by (simp add: sendMessage_def trim_empty_iff)
    ultimately show ?thesis by blast
  next
    case None
    show ?thesis
    proof (cases "initChat e")
      case (Some sess)
      obtain st1 where
        "run_chat (?st3\<lparr>chatSession := Some sess\<rparr>) (send_stream rs sess (input st) resp) = Inr st1"
        using run_send_stream_total by blast
      then have "run_chat st (?pre @ SetSession sess # send_stream rs sess (input st) resp) = Inr st1"
        unfolding run_chat_append pre by simp
      moreover have "sendMessage e rs resp st
          = (?pre @ SetSession sess # send_stream rs sess (input st) resp) @ [SetIsTyping False]"
        using assms None Some by (simp add: sendMessage_def trim_empty_iff)
      ultimately show ?thesis by blast
    next
      case n: None
      have "run_chat st (?pre @ chat_catch missing_key_error)
              = Inr (?st3\<lparr>messages := messages ?st3 @ [\<lparr>role = js ''model'',
                          text = chat_diagnostic (message_or_unknown missing_key_error)\<rparr>]\<rparr>)"
        by (simp add: chat_catch_def)
      moreover have "sendMessage e rs resp st
          = (?pre @ chat_catch missing_key_error) @ [SetIsTyping False]"
        using assms None n by (simp add: sendMessage_def trim_empty_iff)
      ultimately show ?thesis by blast
    qed
  qed
qed

text \<open>
  Claim C9, as the specification states it, has the flag cleared after every invocation,
  the early return included. The early return stands before the \<^verbatim>\<open>try\<close> block, so the
  \<^verbatim>\<open>finally\<close> block does not run for it and the flag is left as it was. The chat panel
  shows it: the user sends \<^verbatim>\<open>hi\<close>, and while that exchange waits for its stream (the
  request is out, the input field is empty again, the typing flag is set) presses Enter
  once more. \<^verbatim>\<open>sendMessage\<close> returns at once and the typing flag is still set.
\<close>

theorem early_return_keeps_flag_counterexample:
  "run_chat ((mount \<lparr>API_KEY = Some (js ''k''), GEMINI_API_KEY = None\<rparr>)\<lparr>input := js ''hi''\<rparr>)
     (take 4 (sendMessage \<lparr>API_KEY = Some (js ''k''), GEMINI_API_KEY = None\<rparr> []
                (Stream [Some (js ''x'')] None)
                ((mount \<lparr>API_KEY = Some (js ''k''), GEMINI_API_KEY = None\<rparr>)
                   \<lparr>input := js ''hi''\<rparr>)))
     = Inr ((mount \<lparr>API_KEY = Some (js ''k''), GEMINI_API_KEY = None\<rparr>)
              \<lparr>messages := [\<lparr>role = js ''user'', text = js ''hi''\<rparr>], input := [],
                 isTyping := True\<rparr>)
   \<and> sendMessage \<lparr>API_KEY = Some (js ''k''), GEMINI_API_KEY = None\<rparr> []
        (Stream [Some (js ''y'')] None)
        ((mount \<lparr>API_KEY = Some (js ''k''), GEMINI_API_KEY = None\<rparr>)
              \<lparr>messages := [\<lparr>role = js ''user'', text = js ''hi''\<rparr>], input := [],
                 isTyping := True\<rparr>)
       = []
   \<and> (case run_chat ((mount \<lparr>API_KEY = Some (js ''k''), GEMINI_API_KEY = None\<rparr>)
              \<lparr>messages := [\<lparr>role = js ''user'', text = js ''hi''\<rparr>], input := [],
                 isTyping := True\<rparr>)
          (sendMessage \<lparr>API_KEY = Some (js ''k''), GEMINI_API_KEY = None\<rparr> []
             (Stream [Some (js ''y'')] None)
             ((mount \<lparr>API_KEY = Some (js ''k''), GEMINI_API_KEY = None\<rparr>)
              \<lparr>messages := [\<lparr>role = js ''user'', text = js ''hi''\<rparr>], input := [],
                 isTyping := True\<rparr>))
        of Inl f \<Rightarrow> False | Inr st \<Rightarrow> isTyping st)"
  by (simp add: sendMessage_def trim_hi trim_Nil mount_def initChat_def getGenAI_def or_else_def
        truthy_def send_stream_def) (simp add: js_def)

text \<open>
  Claim C9, amended. Every invocation of \<^verbatim>\<open>generateCode\<close> and of \<^verbatim>\<open>sendMessage\<close> that
  passes the guard on blank input ends, whatever the outcome (missing credential,
  rejected request, a stream that ends, a stream that fails on the way), with the loading
  flag, respectively the typing flag, cleared. An invocation that the guard stops changes
  nothing: the flag stays as it was.
\<close>

theorem flags_cleared_past_guard:
  "(\<not> blank (description gst) \<longrightarrow> \<not> loading (run_gen gst (generateCode e resp gst)))
   \<and> (blank (description gst) \<longrightarrow> run_gen gst (generateCode e resp gst) = gst)
   \<and> (\<not> blank (input cst) \<longrightarrow>
        (\<exists>cst'. run_chat cst (sendMessage e rs resp' cst) = Inr cst' \<and> \<not> isTyping cst'))
   \<and> (blank (input cst) \<longrightarrow> run_chat cst (sendMessage e rs resp' cst) = Inr cst)"
proof (intro conjI impI)
  assume "\<not> blank (description gst)"
  then obtain evs where "generateCode e resp gst = evs @ [SetLoading False]"
    using generateCode_last by blast
  then show "\<not> loading (run_gen gst (generateCode e resp gst))"
    by (simp add: run_gen_snoc)
next
  assume "blank (description gst)"
  then show "run_gen gst (generateCode e resp gst) = gst"
    by (simp add: generateCode_def trim_empty_iff run_gen_def)
next
  assume "\<not> blank (input cst)"
  then obtain evs st1 where s: "sendMessage e rs resp' cst = evs @ [SetIsTyping False]"
    and r: "run_chat cst evs = Inr st1"
    using sendMessage_runs by blast
  have "run_chat cst (sendMessage e rs resp' cst) = Inr (st1\<lparr>isTyping := False\<rparr>)"
    unfolding s run_chat_append r by simp
  then show "\<exists>cst'. run_chat cst (sendMessage e rs resp' cst) = Inr cst' \<and> \<not> isTyping cst'"
    by simp
next
  assume "blank (input cst)"
  then show "run_chat cst (sendMessage e rs resp' cst) = Inr cst"
    by (simp add: sendMessage_def trim_empty_iff)
qed

text \<open>
  A generation and an exchange whose streams fail after one chunk, and a send with an
  empty input while the typing flag is set.
\<close>

theorem flags_cleared_past_guard_witness:
  "\<not> blank (js ''hi'') \<and> blank []
   \<and> \<not> loading
        (run_gen \<lparr>description = js ''hi'', language = js ''C'', loading = False, output = None\<rparr>
           (generateCode \<lparr>API_KEY = Some (js ''k''), GEMINI_API_KEY = None\<rparr>
              (Stream [Some (js ''x'')] (Some (Error None)))
              \<lparr>description = js ''hi'', language = js ''C'', loading = False, output = None\<rparr>))
   \<and> (\<exists>cst'. run_chat \<lparr>messages = [], input = js ''hi'', isTyping = False, chatSession = None\<rparr>
          (sendMessage \<lparr>API_KEY = Some (js ''k''), GEMINI_API_KEY = None\<rparr> []
             (Stream [Some (js ''x'')] (Some (Error None)))
             \<lparr>messages = [], input = js ''hi'', isTyping = False, chatSession = None\<rparr>)
          = Inr cst'
          \<and> \<not> isTyping cst')
   \<and> run_chat \<lparr>messages = [], input = [], isTyping = True, chatSession = None\<rparr>
          (sendMessage \<lparr>API_KEY = Some (js ''k''), GEMINI_API_KEY = None\<rparr> []
             (Stream [Some (js ''x'')] (Some (Error None)))
             \<lparr>messages = [], input = [], isTyping = True, chatSession = None\<rparr>)
       = Inr \<lparr>messages = [], input = [], isTyping = True, chatSession = None\<rparr>"
  using flags_cleared_past_guard
     [of "\<lparr>description = js ''hi'', language = js ''C'', loading = False, output = None\<rparr>"
         "\<lparr>API_KEY = Some (js ''k''), GEMINI_API_KEY = None\<rparr>"
         "Stream [Some (js ''x'')] (Some (Error None))"
         "\<lparr>messages = [], input = js ''hi'', isTyping = False, chatSession = None\<rparr>"
         "[]" "Stream [Some (js ''x'')] (Some (Error None))"]
    flags_cleared_past_guard
     [of "\<lparr>description = js ''hi'', language = js ''C'', loading = False, output = None\<rparr>"
         "\<lparr>API_KEY = Some (js ''k''), GEMINI_API_KEY = None\<rparr>"
         "Stream [Some (js ''x'')] (Some (Error None))"
         "\<lparr>messages = [], input = [], isTyping = True, chatSession = None\<rparr>"
         "[]" "Stream [Some (js ''x'')] (Some (Error None))"]
    not_blank_hi
  by (simp add: blank_def)

end
